theory Spec2Isabelle
  imports Main "HOL-Library.AList"
begin

section \<open>Gentle Pomodoro: timer engine and session log recorder\<close>

text \<open>
  A shallow embedding of the two classes that carry the behaviour of the plugin:
  \<^verbatim>\<open>LogManager\<close> (logManager.ts, the second document of src/main.ts) and
  \<^verbatim>\<open>TimerEngine\<close> (main.ts). The repository holds two revisions of main.ts: the
  one in src/unnamed/part_000 and an older one in src/main.ts. Their \<^verbatim>\<open>start\<close>,
  \<^verbatim>\<open>pause\<close>, \<^verbatim>\<open>skip\<close>, \<^verbatim>\<open>cancel\<close>, \<^verbatim>\<open>switchMode\<close> and \<^verbatim>\<open>addMinutes\<close> change the
  state in the same way: the newer one adds sounds, a deferred task-completion check and
  the field \<^verbatim>\<open>taskName\<close> of the timer state, which the older one does not have. Their
  \<^verbatim>\<open>reset\<close> differ, and both are modelled.

  Conventions.
  \<^item> JavaScript numbers are modelled as \<open>int\<close>: minutes, milliseconds and timestamps
    are integers far below \<open>2^53\<close>, where the arithmetic used here is exact.
  \<^item> A moment object is its value in milliseconds since the epoch; \<^verbatim>\<open>a.diff(b)\<close> is
    \<open>a - b\<close>. Every read of the clock (\<^verbatim>\<open>moment()\<close>, \<^verbatim>\<open>Date.now()\<close>) is an argument
    of the function that performs it.
  \<^item> Strings are byte strings (UTF-8), as they reach the log file.
  \<^item> \<^verbatim>\<open>undefined\<close>/\<^verbatim>\<open>null\<close> is \<open>None\<close>; a moment object is truthy, so a test such
    as \<^verbatim>\<open>!this.currentPauseStart\<close> asks for \<open>None\<close>.
  \<^item> The asynchronous tail of \<^verbatim>\<open>endSession\<close> (the file write and the clearing of the
    record) is run to completion inside the call, and no event of the user is
    interleaved. The one continuation that the timer itself starts beside it, the
    task-completion check of \<^verbatim>\<open>skip\<close>, is interleaved under a parameter.
\<close>

subsection \<open>Settings and host capabilities\<close>

datatype PomoMode = Focus | Break

datatype Status = Finished | Cancelled

type_synonym moment = int

record GentlePomoSettings =
  focusMinutes :: int
  breakMinutes :: int
  autoStartBreak :: bool
  autoStartFocus :: bool
  logFolderPath :: string

definition DEFAULT_SETTINGS :: GentlePomoSettings where
  "DEFAULT_SETTINGS =
     \<lparr>focusMinutes = 25, breakMinutes = 5, autoStartBreak = False,
      autoStartFocus = False, logFolderPath = []\<rparr>"

text \<open>
  The two library functions the recorder calls and the repository does not contain are
  parameters of the model: \<^verbatim>\<open>m.format(pattern)\<close> of moment.js and \<^verbatim>\<open>normalizePath\<close> of
  the host application.
\<close>

record host =
  momentFormat :: "string \<Rightarrow> moment \<Rightarrow> string"
  normalizePath :: "string \<Rightarrow> string"

text \<open>
  Modelled from the spec: the host's file system capability (``check existence of a path,
  create a folder recursively, create a file with initial content, append a line to an
  existing file''), which is not part of the repository. A vault maps a path to a folder
  or to a file with its content; the operations always succeed.
\<close>

datatype node = TFolder | TFile string

type_synonym vault = "(string \<times> node) list"

definition adapter_exists :: "vault \<Rightarrow> string \<Rightarrow> bool" where
  "adapter_exists v p = (map_of v p \<noteq> None)"

definition getAbstractFileByPath :: "vault \<Rightarrow> string \<Rightarrow> node option" where
  "getAbstractFileByPath v p = map_of v p"

definition createFolder :: "string \<Rightarrow> vault \<Rightarrow> vault" where
  "createFolder p v = AList.update p TFolder v"

definition vault_create :: "string \<Rightarrow> string \<Rightarrow> vault \<Rightarrow> vault" where
  "vault_create p content v = AList.update p (TFile content) v"

definition vault_append :: "string \<Rightarrow> string \<Rightarrow> vault \<Rightarrow> vault" where
  "vault_append p extra v =
     (case map_of v p of
        Some (TFile content) \<Rightarrow> AList.update p (TFile (content @ extra)) v
      | _ \<Rightarrow> v)"

subsection \<open>LogManager: the session record\<close>

text \<open>
  \<^verbatim>\<open>currentSession\<close> is a \<^verbatim>\<open>Partial<SessionLog>\<close>: \<^verbatim>\<open>startSession\<close> fills every field
  but \<^verbatim>\<open>endTime\<close>, which \<^verbatim>\<open>endSession\<close> adds before the record is passed on as a
  \<^verbatim>\<open>SessionLog\<close>. A pause \<^verbatim>\<open>{start, end}\<close> is the pair \<open>(start, end)\<close>.
\<close>

record PartialSessionLog =
  mode :: PomoMode
  taskName :: string
  taskPath :: "string option"
  scheduledDurationMinutes :: int
  startTime :: moment
  pauses :: "(moment \<times> moment) list"
  status :: Status

record SessionLog = PartialSessionLog +
  endTime :: moment

record LogManager =
  currentSession :: "PartialSessionLog option"
  currentPauseStart :: "moment option"

text \<open>\<^verbatim>\<open>name || "No Task"\<close>: the empty string is falsy.\<close>

definition orNoTask :: "string \<Rightarrow> string" where
  "orNoTask name = (if name = [] then ''No Task'' else name)"

definition resumeSession :: "moment \<Rightarrow> LogManager \<Rightarrow> LogManager" where
  "resumeSession now lm =
     (case currentSession lm of
        None \<Rightarrow> lm
      | Some s \<Rightarrow>
          (case currentPauseStart lm of
             None \<Rightarrow> lm
           | Some pauseStart \<Rightarrow>
               lm\<lparr>currentSession := Some (s\<lparr>pauses := pauses s @ [(pauseStart, now)]\<rparr>),
                  currentPauseStart := None\<rparr>))"

definition startSession ::
  "PomoMode \<Rightarrow> string \<Rightarrow> int \<Rightarrow> string option \<Rightarrow> moment \<Rightarrow> LogManager \<Rightarrow> LogManager" where
  "startSession m name durationMinutes path now lm =
     (case currentSession lm of
        Some _ \<Rightarrow> resumeSession now lm
      | None \<Rightarrow>
          lm\<lparr>currentSession := Some
               \<lparr>mode = m, taskName = orNoTask name, taskPath = path,
                scheduledDurationMinutes = durationMinutes, startTime = now,
                pauses = [], status = Cancelled\<rparr>\<rparr>)"

definition pauseSession :: "moment \<Rightarrow> LogManager \<Rightarrow> LogManager" where
  "pauseSession now lm =
     (case currentSession lm of
        None \<Rightarrow> lm
      | Some _ \<Rightarrow> lm\<lparr>currentPauseStart := Some now\<rparr>)"

definition updateTask :: "string \<Rightarrow> string option \<Rightarrow> LogManager \<Rightarrow> LogManager" where
  "updateTask newTaskName newTaskPath lm =
     (case currentSession lm of
        None \<Rightarrow> lm
      | Some s \<Rightarrow>
          lm\<lparr>currentSession := Some (s\<lparr>taskName := orNoTask newTaskName,
                                        taskPath := newTaskPath\<rparr>)\<rparr>)"

subsection \<open>Rendering numbers and JSON\<close>

text \<open>A template literal prints an integer in decimal, with a minus sign when negative.\<close>

function digitsOf :: "int \<Rightarrow> string" where
  "digitsOf n =
     (if n < 10 then [''0123456789'' ! nat n]
      else digitsOf (n div 10) @ [''0123456789'' ! nat (n mod 10)])"
  by pat_completeness auto
termination
  by (relation "measure nat") auto

declare digitsOf.simps [simp del]

definition numberToString :: "int \<Rightarrow> string" where
  "numberToString i = (if i < 0 then ''-'' @ digitsOf (- i) else digitsOf i)"

text \<open>
  \<^verbatim>\<open>JSON.stringify\<close> of an array of strings: each string quoted, with the quote, the
  backslash and the control characters escaped, separated by commas, in brackets.
\<close>

definition jsonEscape :: "char \<Rightarrow> string" where
  "jsonEscape c =
     (if c = CHR 0x22 then [CHR 0x5C, CHR 0x22]
      else if c = CHR 0x5C then [CHR 0x5C, CHR 0x5C]
      else if c = CHR 0x08 then [CHR 0x5C, CHR ''b'']
      else if c = CHR 0x09 then [CHR 0x5C, CHR ''t'']
      else if c = CHR 0x0A then [CHR 0x5C, CHR ''n'']
      else if c = CHR 0x0C then [CHR 0x5C, CHR ''f'']
      else if c = CHR 0x0D then [CHR 0x5C, CHR ''r'']
      else if (of_char c :: nat) < 0x20
        then [CHR 0x5C, CHR ''u'', CHR ''0'', CHR ''0'',
              ''0123456789abcdef'' ! ((of_char c :: nat) div 16),
              ''0123456789abcdef'' ! ((of_char c :: nat) mod 16)]
      else [c])"


definition jsonQuote :: "string \<Rightarrow> string" where
  "jsonQuote s = [CHR 0x22] @ concat (map jsonEscape s) @ [CHR 0x22]"

fun joinWith :: "string \<Rightarrow> string list \<Rightarrow> string" where
  "joinWith sep [] = []"
| "joinWith sep [x] = x"
| "joinWith sep (x # y # ys) = x @ sep @ joinWith sep (y # ys)"

definition jsonStringify :: "string list \<Rightarrow> string" where
  "jsonStringify xs = ''['' @ joinWith '','' (map jsonQuote xs) @ '']''"

subsection \<open>LogManager: deriving and writing the log line\<close>

text \<open>The two emoji of the line, as the UTF-8 bytes written to the file.\<close>

definition tomato :: string where
  "tomato = [CHR 0xF0, CHR 0x9F, CHR 0x8D, CHR 0x85]"

definition hotBeverage :: string where
  "hotBeverage = [CHR 0xE2, CHR 0x98, CHR 0x95]"

definition dateTimeFormat :: "host \<Rightarrow> moment \<Rightarrow> string" where
  "dateTimeFormat H t = momentFormat H ''YYYY-MM-DD HH:mm:ss'' t"

text \<open>
  The callback of \<^verbatim>\<open>session.pauses.map\<close> adds each interval to \<^verbatim>\<open>totalPauseMs\<close> and
  returns its text.
\<close>

definition totalPauseMs :: "(moment \<times> moment) list \<Rightarrow> int" where
  "totalPauseMs ps = foldl (\<lambda>acc p. acc + (snd p - fst p)) 0 ps"

definition pauseStrings :: "host \<Rightarrow> (moment \<times> moment) list \<Rightarrow> string list" where
  "pauseStrings H ps =
     map (\<lambda>p. dateTimeFormat H (fst p) @ '' - '' @ dateTimeFormat H (snd p)) ps"

definition totalSeconds :: "SessionLog \<Rightarrow> int" where
  "totalSeconds session =
     ((endTime session - startTime session) - totalPauseMs (pauses session)) div 1000"

definition scheduledSeconds :: "SessionLog \<Rightarrow> int" where
  "scheduledSeconds session = scheduledDurationMinutes session * 60"

definition taskStr :: "SessionLog \<Rightarrow> string" where
  "taskStr session =
     (let plain = (if taskName session = ''No Task'' then ''No Task'' else taskName session)
      in case taskPath session of
           None \<Rightarrow> plain
         | Some path \<Rightarrow>
             if path \<noteq> [] \<and> taskName session \<noteq> ''No Task''
             then ''[['' @ path @ ''|'' @ taskName session @ '']]''
             else plain)"

definition statusString :: "Status \<Rightarrow> string" where
  "statusString st = (case st of Finished \<Rightarrow> ''finished'' | Cancelled \<Rightarrow> ''cancelled'')"

definition logLine :: "host \<Rightarrow> SessionLog \<Rightarrow> string" where
  "logLine H session =
     (let startFmt = dateTimeFormat H (startTime session);
          endFmt = dateTimeFormat H (endTime session)
      in if mode session = Focus
         then ''- '' @ tomato @ '' Focus | Task:: '' @ taskStr session
              @ '' | Start:: '' @ startFmt @ '' | End:: '' @ endFmt
              @ '' | Scheduled:: '' @ numberToString (scheduledSeconds session)
              @ '' | Pauses:: '' @ jsonStringify (pauseStrings H (pauses session))
              @ '' | Total:: '' @ numberToString (totalSeconds session)
              @ '' | Status:: '' @ statusString (status session)
         else ''- '' @ hotBeverage @ '' Rest | Start:: '' @ startFmt @ '' | End:: '' @ endFmt
              @ '' | Scheduled:: '' @ numberToString (scheduledSeconds session)
              @ '' | Total:: '' @ numberToString (totalSeconds session))"

definition logFolder :: "host \<Rightarrow> GentlePomoSettings \<Rightarrow> string" where
  "logFolder H cfg = normalizePath H (logFolderPath cfg)"

definition logFilePath :: "host \<Rightarrow> GentlePomoSettings \<Rightarrow> SessionLog \<Rightarrow> string" where
  "logFilePath H cfg session =
     (let dateStr = momentFormat H ''YYYY-MM-DD'' (startTime session);
          fileName = dateStr @ ''-gentle-pomodoro-log.md''
      in normalizePath H (logFolder H cfg @ ''/'' @ fileName))"

definition ensureFolder :: "string \<Rightarrow> vault \<Rightarrow> vault" where
  "ensureFolder folder v = (if \<not> adapter_exists v folder then createFolder folder v else v)"

definition writeLog :: "host \<Rightarrow> GentlePomoSettings \<Rightarrow> SessionLog \<Rightarrow> vault \<Rightarrow> vault" where
  "writeLog H cfg session v =
     (if logFolderPath cfg = [] then v
      else
        let normalizedFolder = logFolder H cfg;
            v1 = ensureFolder normalizedFolder v;
            filePath = logFilePath H cfg session;
            line = logLine H session
        in if adapter_exists v1 filePath
           then (case getAbstractFileByPath v1 filePath of
                   Some (TFile _) \<Rightarrow> vault_append filePath ([CHR 0x0A] @ line) v1
                 | _ \<Rightarrow> v1)
           else vault_create filePath line v1)"

definition asSessionLog :: "PartialSessionLog \<Rightarrow> moment \<Rightarrow> Status \<Rightarrow> SessionLog" where
  "asSessionLog s now st =
     \<lparr>mode = mode s, taskName = taskName s, taskPath = taskPath s,
      scheduledDurationMinutes = scheduledDurationMinutes s, startTime = startTime s,
      pauses = pauses s, status = st, endTime = now\<rparr>"

text \<open>
  \<^verbatim>\<open>endSession\<close> reads the clock once to close an open pause (\<open>nowResume\<close>) and once
  for the end time (\<open>nowEnd\<close>).
\<close>

definition endSession ::
  "host \<Rightarrow> GentlePomoSettings \<Rightarrow> Status \<Rightarrow> moment \<Rightarrow> moment \<Rightarrow> LogManager \<times> vault
     \<Rightarrow> LogManager \<times> vault" where
  "endSession H cfg st nowResume nowEnd lv =
     (case currentSession (fst lv) of
        None \<Rightarrow> lv
      | Some _ \<Rightarrow>
          (let lm1 = (if currentPauseStart (fst lv) \<noteq> None
                      then resumeSession nowResume (fst lv) else fst lv)
           in (case currentSession lm1 of
                 None \<Rightarrow> (lm1, snd lv)
               | Some cur \<Rightarrow>
                   (let v' = writeLog H cfg (asSessionLog cur nowEnd st) (snd lv)
                    in (lm1\<lparr>currentSession := None, currentPauseStart := None\<rparr>, v')))))"

text \<open>
  The record that \<^verbatim>\<open>endSession\<close> hands to \<^verbatim>\<open>writeLog\<close>: the record in progress with an
  open pause closed, the end time and the status set.
\<close>

definition finalRecord :: "LogManager \<Rightarrow> Status \<Rightarrow> moment \<Rightarrow> moment \<Rightarrow> SessionLog option" where
  "finalRecord lm st nowResume nowEnd =
     (case currentSession lm of
        None \<Rightarrow> None
      | Some s \<Rightarrow>
          Some (asSessionLog
                  (case currentPauseStart lm of
                     None \<Rightarrow> s
                   | Some pauseStart \<Rightarrow> s\<lparr>pauses := pauses s @ [(pauseStart, nowResume)]\<rparr>)
                  nowEnd st))"

subsection \<open>LogManager: a sequence of calls\<close>








subsection \<open>TimerEngine\<close>

record TimerState =
  mode :: PomoMode
  isRunning :: bool
  remainingMs :: int
  totalMs :: int
  taskName :: string

text \<open>
  \<open>intervalActive\<close> stands for \<^verbatim>\<open>intervalId !== null\<close>; \<open>emitted\<close> collects the
  snapshots \<^verbatim>\<open>emit()\<close> hands to the listeners, oldest first.
\<close>

record TimerEngine =
  state :: TimerState
  intervalActive :: bool
  targetTime :: "int option"
  currentTaskName :: string
  currentTaskPath :: "string option"
  emitted :: "TimerState list"

record GentlePomoPlugin =
  settings :: GentlePomoSettings
  timer :: TimerEngine
  logManager :: LogManager
  files :: vault

definition minutesFor :: "GentlePomoSettings \<Rightarrow> PomoMode \<Rightarrow> int" where
  "minutesFor cfg m = (if m = Focus then focusMinutes cfg else breakMinutes cfg)"

definition emit :: "TimerEngine \<Rightarrow> TimerEngine" where
  "emit te = te\<lparr>emitted := emitted te @ [state te]\<rparr>"

definition clearLoop :: "TimerEngine \<Rightarrow> TimerEngine" where
  "clearLoop te = te\<lparr>intervalActive := False\<rparr>"

definition startLoop :: "int \<Rightarrow> TimerEngine \<Rightarrow> TimerEngine" where
  "startLoop now te =
     (let te1 = clearLoop te;
          te2 = (if isRunning (state te1) \<and> targetTime te1 = None
                 then te1\<lparr>targetTime := Some (now + remainingMs (state te1))\<rparr> else te1)
      in te2\<lparr>intervalActive := True\<rparr>)"

text \<open>
  \<^verbatim>\<open>switchMode(mode, autoStart)\<close>. The clock is read only when \<open>autoStart\<close> holds:
  \<open>nowMoment\<close> by \<^verbatim>\<open>startSession\<close>, \<open>now\<close> by \<^verbatim>\<open>Date.now()\<close>. Here and in \<^verbatim>\<open>start\<close>
  the target is set before \<^verbatim>\<open>startLoop\<close> runs, so the clock read of its safety branch
  does not happen; it is given the same reading.
\<close>

definition switchMode ::
  "PomoMode \<Rightarrow> bool \<Rightarrow> moment \<Rightarrow> int \<Rightarrow> GentlePomoPlugin \<Rightarrow> GentlePomoPlugin" where
  "switchMode m autoStart nowMoment now P =
     (let minutes = minutesFor (settings P) m;
          total = minutes * 60 * 1000;
          te = timer P;
          te1 = emit (te\<lparr>state := \<lparr>mode = m, isRunning = autoStart, remainingMs = total,
                                    totalMs = total, taskName = currentTaskName te\<rparr>\<rparr>)
      in if autoStart
         then P\<lparr>logManager := startSession m (currentTaskName te1) minutes
                                 (currentTaskPath te1) nowMoment (logManager P),
                timer := startLoop now (te1\<lparr>targetTime := Some (now + total)\<rparr>)\<rparr>
         else P\<lparr>timer := clearLoop (te1\<lparr>targetTime := None\<rparr>)\<rparr>)"

definition start :: "moment \<Rightarrow> int \<Rightarrow> GentlePomoPlugin \<Rightarrow> GentlePomoPlugin" where
  "start nowMoment now P =
     (if isRunning (state (timer P)) then P
      else
        let te = timer P;
            te1 = te\<lparr>state := (state te)\<lparr>isRunning := True\<rparr>\<rparr>;
            minutes = minutesFor (settings P) (mode (state te1));
            lm = startSession (mode (state te1)) (currentTaskName te1) minutes
                   (currentTaskPath te1) nowMoment (logManager P);
            te2 = te1\<lparr>targetTime := Some (now + remainingMs (state te1))\<rparr>
        in P\<lparr>logManager := lm, timer := startLoop now (emit te2)\<rparr>)"

definition pause :: "moment \<Rightarrow> GentlePomoPlugin \<Rightarrow> GentlePomoPlugin" where
  "pause nowMoment P =
     (if \<not> isRunning (state (timer P)) then P
      else
        let lm = pauseSession nowMoment (logManager P);
            te = timer P;
            te1 = te\<lparr>state := (state te)\<lparr>isRunning := False\<rparr>, targetTime := None\<rparr>
        in P\<lparr>logManager := lm, timer := emit (clearLoop te1)\<rparr>)"

text \<open>
  The call of \<^verbatim>\<open>logManager.endSession(status)\<close> from the timer, on the plugin state.
\<close>

definition endSessionOf ::
  "host \<Rightarrow> Status \<Rightarrow> moment \<Rightarrow> moment \<Rightarrow> GentlePomoPlugin \<Rightarrow> GentlePomoPlugin" where
  "endSessionOf H st nowResume nowEnd P =
     (let lv = endSession H (settings P) st nowResume nowEnd (logManager P, files P)
      in P\<lparr>logManager := fst lv, files := snd lv\<rparr>)"

text \<open>
  \<^verbatim>\<open>setTask(name, path)\<close> of the main.ts in src/unnamed/part_000.
\<close>

definition setTask :: "string \<Rightarrow> string option \<Rightarrow> GentlePomoPlugin \<Rightarrow> GentlePomoPlugin" where
  "setTask name path P =
     (let te = timer P;
          te1 = te\<lparr>currentTaskName := name, currentTaskPath := path,
                   state := (state te)\<lparr>taskName := name\<rparr>\<rparr>
      in P\<lparr>logManager := updateTask name path (logManager P), timer := emit te1\<rparr>)"

text \<open>
  \<^verbatim>\<open>checkTaskCompletionAndUnlink()\<close> of the main.ts in src/unnamed/part_000 returns at
  once when no task is linked or the file of the task is not a file of the vault
  (\<open>unlinkGuard\<close>). Otherwise it awaits a read of the file, scans it, and calls
  \<^verbatim>\<open>setTask("No Task")\<close> when it finds the task completed and not open. What the scan finds
  and when its continuation runs is not fixed by the state of the plugin; it is the
  parameter \<open>unlinkTiming\<close>: no unlink (also: the read fails), an unlink before
  \<^verbatim>\<open>writeLog\<close> builds the line, or an unlink after that.
\<close>

datatype unlinkTiming = NoUnlink | UnlinkBeforeLine | UnlinkAfterLine

definition unlinkGuard :: "GentlePomoPlugin \<Rightarrow> bool" where
  "unlinkGuard P =
     (case currentTaskPath (timer P) of
        None \<Rightarrow> False
      | Some path \<Rightarrow>
          path \<noteq> [] \<and> currentTaskName (timer P) \<noteq> ''No Task''
          \<and> (case getAbstractFileByPath (files P) path of
                Some (TFile content) \<Rightarrow> True
              | _ \<Rightarrow> False))"

text \<open>
  \<^verbatim>\<open>skip()\<close> of the main.ts in src/unnamed/part_000. Its sounds change no state. It
  calls \<^verbatim>\<open>endSession(status)\<close> and \<^verbatim>\<open>checkTaskCompletionAndUnlink()\<close> without awaiting
  them and then \<^verbatim>\<open>switchMode(nextMode, false)\<close>, which reads no clock. The synchronous
  part of \<^verbatim>\<open>endSession\<close> closes an open pause and sets end time and status on the live
  record; the line is built from that record after the first await of \<^verbatim>\<open>writeLog\<close>. An
  unlink before that moment rewrites the task of the live record through \<^verbatim>\<open>updateTask\<close>
  (\<open>P0\<close>); the rest of \<^verbatim>\<open>setTask\<close> acts on the timer, which \<^verbatim>\<open>switchMode\<close> has left by
  then. The \<^verbatim>\<open>skip()\<close> of src/main.ts has no such check: it is the case \<open>NoUnlink\<close>.
\<close>

definition skip ::
  "host \<Rightarrow> unlinkTiming \<Rightarrow> moment \<Rightarrow> moment \<Rightarrow> GentlePomoPlugin \<Rightarrow> GentlePomoPlugin" where
  "skip H u nowResume nowEnd P =
     (let st = (if mode (state (timer P)) = Focus then Cancelled else Finished);
          unlinks = (u \<noteq> NoUnlink \<and> unlinkGuard P);
          P0 = (if unlinks \<and> u = UnlinkBeforeLine
                then P\<lparr>logManager := updateTask ''No Task'' None (logManager P)\<rparr> else P);
          P1 = endSessionOf H st nowResume nowEnd P0;
          nextMode = (if mode (state (timer P1)) = Focus then Break else Focus);
          P2 = switchMode nextMode False nowEnd nowEnd P1
      in if unlinks then setTask ''No Task'' None P2 else P2)"

text \<open>\<^verbatim>\<open>cancel()\<close> of src/main.ts, which has no task-completion check.\<close>

definition cancel :: "host \<Rightarrow> moment \<Rightarrow> moment \<Rightarrow> GentlePomoPlugin \<Rightarrow> GentlePomoPlugin" where
  "cancel H nowResume nowEnd P =
     (let P1 = endSessionOf H Cancelled nowResume nowEnd P
      in switchMode (mode (state (timer P1))) False nowEnd nowEnd P1)"

text \<open>\<^verbatim>\<open>reset()\<close> of the main.ts in src/unnamed/part_000.\<close>

definition reset :: "int \<Rightarrow> GentlePomoPlugin \<Rightarrow> GentlePomoPlugin" where
  "reset now P =
     (let te = timer P;
          minutes = minutesFor (settings P) (mode (state te));
          total = minutes * 60 * 1000;
          te1 = te\<lparr>state := (state te)\<lparr>remainingMs := total, totalMs := total\<rparr>\<rparr>;
          te2 = (if isRunning (state te1)
                 then te1\<lparr>targetTime := Some (now + total)\<rparr>
                 else clearLoop (te1\<lparr>targetTime := None\<rparr>))
      in P\<lparr>timer := emit te2\<rparr>)"

text \<open>\<^verbatim>\<open>reset()\<close> of src/main.ts: \<^verbatim>\<open>this.cancel()\<close>.\<close>

definition reset_src_main ::
  "host \<Rightarrow> moment \<Rightarrow> moment \<Rightarrow> GentlePomoPlugin \<Rightarrow> GentlePomoPlugin" where
  "reset_src_main H nowResume nowEnd P = cancel H nowResume nowEnd P"

definition addMinutes :: "int \<Rightarrow> GentlePomoPlugin \<Rightarrow> GentlePomoPlugin" where
  "addMinutes delta P =
     (let te = timer P;
          deltaMs = delta * 60 * 1000;
          newTotal0 = totalMs (state te) + deltaMs;
          minTotal = 60 * 1000;
          newTotal = (if newTotal0 < minTotal then minTotal else newTotal0);
          oldRemaining = remainingMs (state te);
          newRemaining0 = oldRemaining + deltaMs;
          newRemaining = (if newRemaining0 > newTotal then newTotal else newRemaining0);
          te1 = te\<lparr>state := (state te)\<lparr>totalMs := newTotal, remainingMs := newRemaining\<rparr>\<rparr>;
          te2 = (if isRunning (state te1)
                 then (case targetTime te1 of
                         None \<Rightarrow> te1
                       | Some t \<Rightarrow> te1\<lparr>targetTime := Some (t + (newRemaining - oldRemaining))\<rparr>)
                 else te1)
      in P\<lparr>timer := emit te2\<rparr>)"

subsection \<open>A reference host for the examples\<close>

text \<open>
  The examples below run the model on a host whose clock is rendered in UTC, for the two
  patterns the recorder uses, and whose paths are already normalised. The day count is
  turned into a civil date by the usual era arithmetic on 400-year cycles.
\<close>

definition zeroFill :: "nat \<Rightarrow> int \<Rightarrow> string" where
  "zeroFill width n =
     (let ds = digitsOf \<bar>n\<bar>
      in (if n < 0 then ''-'' else []) @ replicate (width - length ds) (CHR ''0'') @ ds)"

definition civilFromDays :: "int \<Rightarrow> int \<times> int \<times> int" where
  "civilFromDays days =
     (let z = days + 719468;
          era = z div 146097;
          doe = z - era * 146097;
          yoe = (doe - doe div 1460 + doe div 36524 - doe div 146096) div 365;
          doy = doe - (365 * yoe + yoe div 4 - yoe div 100);
          mp = (5 * doy + 2) div 153;
          d = doy - (153 * mp + 2) div 5 + 1;
          m = (if mp < 10 then mp + 3 else mp - 9);
          y = yoe + era * 400 + (if m \<le> 2 then 1 else 0)
      in (y, m, d))"

definition utcDate :: "moment \<Rightarrow> string" where
  "utcDate t =
     (case civilFromDays (t div 86400000) of
        (y, m, d) \<Rightarrow> zeroFill 4 y @ ''-'' @ zeroFill 2 m @ ''-'' @ zeroFill 2 d)"

definition utcTime :: "moment \<Rightarrow> string" where
  "utcTime t =
     (let secs = (t mod 86400000) div 1000
      in zeroFill 2 (secs div 3600) @ '':'' @ zeroFill 2 ((secs mod 3600) div 60)
         @ '':'' @ zeroFill 2 (secs mod 60))"

definition utcFormat :: "string \<Rightarrow> moment \<Rightarrow> string" where
  "utcFormat pattern t =
     (if pattern = ''YYYY-MM-DD'' then utcDate t
      else if pattern = ''YYYY-MM-DD HH:mm:ss'' then utcDate t @ '' '' @ utcTime t
      else pattern)"

definition utcHost :: host where
  "utcHost = \<lparr>momentFormat = utcFormat, normalizePath = id\<rparr>"

subsection \<open>Example states\<close>

text \<open>
  The states the examples run on. The instants are 2025-12-21 14:00:00, 14:10:00,
  14:12:00 and 14:25:00 UTC (a focus session with one pause), 14:25:00 to 14:30:00 (a
  rest), and 23:58:00 of the same day with 00:03:00 of the next.
\<close>

definition exampleSettings :: GentlePomoSettings where
  "exampleSettings = DEFAULT_SETTINGS\<lparr>logFolderPath := ''Pomodoro_logs''\<rparr>"

definition exampleFocus :: PartialSessionLog where
  "exampleFocus =
     \<lparr>PartialSessionLog.mode = Focus, taskName = ''Task Name #tag'', taskPath = Some ''Path/To/File.md'',
      scheduledDurationMinutes = 25, startTime = 1766325600000,
      pauses = [(1766326200000, 1766326320000)], status = Cancelled\<rparr>"

definition exampleRest :: PartialSessionLog where
  "exampleRest =
     \<lparr>PartialSessionLog.mode = Break, taskName = ''No Task'', taskPath = None,
      scheduledDurationMinutes = 5, startTime = 1766327100000,
      pauses = [], status = Cancelled\<rparr>"

definition exampleMidnight :: PartialSessionLog where
  "exampleMidnight =
     \<lparr>PartialSessionLog.mode = Focus, taskName = ''No Task'', taskPath = None,
      scheduledDurationMinutes = 25, startTime = 1766361480000,
      pauses = [], status = Cancelled\<rparr>"

definition idleRecorder :: LogManager where
  "idleRecorder = \<lparr>currentSession = None, currentPauseStart = None\<rparr>"

definition focusRecorder :: LogManager where
  "focusRecorder = \<lparr>currentSession = Some exampleFocus, currentPauseStart = None\<rparr>"

definition runningTimer :: TimerEngine where
  "runningTimer =
     \<lparr>state = \<lparr>mode = Focus, isRunning = True, remainingMs = 120000, totalMs = 1500000,
               taskName = ''Task Name #tag''\<rparr>,
      intervalActive = True, targetTime = Some 1766327220000,
      currentTaskName = ''Task Name #tag'', currentTaskPath = Some ''Path/To/File.md'',
      emitted = []\<rparr>"

definition stoppedTimer :: TimerEngine where
  "stoppedTimer =
     \<lparr>state = \<lparr>mode = Focus, isRunning = False, remainingMs = 1500000, totalMs = 1500000,
               taskName = ''No Task''\<rparr>,
      intervalActive = False, targetTime = None,
      currentTaskName = ''No Task'', currentTaskPath = None, emitted = []\<rparr>"

definition runningPlugin :: GentlePomoPlugin where
  "runningPlugin =
     \<lparr>settings = exampleSettings, timer = runningTimer, logManager = focusRecorder,
      files = []\<rparr>"

definition stoppedPlugin :: GentlePomoPlugin where
  "stoppedPlugin =
     \<lparr>settings = exampleSettings, timer = stoppedTimer, logManager = idleRecorder,
      files = []\<rparr>"

definition midnightRecorder :: LogManager where
  "midnightRecorder = \<lparr>currentSession = Some exampleMidnight, currentPauseStart = None\<rparr>"

definition restRecorder :: LogManager where
  "restRecorder = \<lparr>currentSession = Some exampleRest, currentPauseStart = None\<rparr>"

definition restTimer :: TimerEngine where
  "restTimer =
     \<lparr>state = \<lparr>mode = Break, isRunning = True, remainingMs = 0, totalMs = 300000,
               taskName = ''No Task''\<rparr>,
      intervalActive = True, targetTime = Some 1766327400000,
      currentTaskName = ''No Task'', currentTaskPath = None, emitted = []\<rparr>"

definition restPlugin :: GentlePomoPlugin where
  "restPlugin =
     \<lparr>settings = exampleSettings, timer = restTimer, logManager = restRecorder,
      files = []\<rparr>"

text \<open>The running focus session, the note of its task being in the vault.\<close>

definition linkedPlugin :: GentlePomoPlugin where
  "linkedPlugin =
     \<lparr>settings = exampleSettings, timer = runningTimer, logManager = focusRecorder,
      files = [(''Path/To/File.md'', TFile ''- [x] Task Name #tag'')]\<rparr>"

text \<open>
  A vault in which the path of the log file of 2025-12-21 is taken by a folder.
\<close>

definition folderAtLogPath :: vault where
  "folderAtLogPath =
     [(''Pomodoro_logs'', TFolder),
      (''Pomodoro_logs/2025-12-21-gentle-pomodoro-log.md'', TFolder)]"



section \<open>Properties\<close>

subsection \<open>Helper facts\<close>

lemma foldl_pause_sum:
  "foldl (\<lambda>acc p. acc + (snd p - fst p)) (a :: int) ps = a + (\<Sum>p\<leftarrow>ps. snd p - fst p)"
  by (induction ps arbitrary: a) simp_all

lemma totalPauseMs_sum: "totalPauseMs ps = (\<Sum>p\<leftarrow>ps. snd p - fst p)"
  by (simp add: totalPauseMs_def foldl_pause_sum)

lemma utcFormat_examples:
  "utcFormat ''YYYY-MM-DD HH:mm:ss'' 1766325600000 = ''2025-12-21 14:00:00''"
  "utcFormat ''YYYY-MM-DD HH:mm:ss'' 1766326200000 = ''2025-12-21 14:10:00''"
  "utcFormat ''YYYY-MM-DD HH:mm:ss'' 1766326320000 = ''2025-12-21 14:12:00''"
  "utcFormat ''YYYY-MM-DD HH:mm:ss'' 1766327100000 = ''2025-12-21 14:25:00''"
  "utcFormat ''YYYY-MM-DD HH:mm:ss'' 1766361480000 = ''2025-12-21 23:58:00''"
  "utcFormat ''YYYY-MM-DD HH:mm:ss'' 1766361780000 = ''2025-12-22 00:03:00''"
  "utcFormat ''YYYY-MM-DD'' 1766325600000 = ''2025-12-21''"
  "utcFormat ''YYYY-MM-DD'' 1766361480000 = ''2025-12-21''"
  "utcFormat ''YYYY-MM-DD'' 1766361780000 = ''2025-12-22''"
  "utcFormat ''YYYY-MM-DD HH:mm:ss'' 1766327400000 = ''2025-12-21 14:30:00''"
  "utcFormat ''YYYY-MM-DD'' 1766327100000 = ''2025-12-21''"
  by code_simp+

lemma numberToString_examples:
  "numberToString 1500 = ''1500''"
  "numberToString 1380 = ''1380''"
  "numberToString 300 = ''300''"
  by (simp_all add: numberToString_def digitsOf.simps)

lemma jsonStringify_example:
  "jsonStringify [''2025-12-21 14:10:00 - 2025-12-21 14:12:00'']
     = ''['' @ [CHR 0x22] @ ''2025-12-21 14:10:00 - 2025-12-21 14:12:00'' @ [CHR 0x22] @ '']''"
  by (simp add: jsonStringify_def jsonQuote_def jsonEscape_def)

subsection \<open>The elapsed-time invariant\<close>

text \<open>
  C1. For a focus record, the \<open>Total\<close> field of the log line is the number
  \<open>floor(((endTime - startTime) - sum of (pauseEnd - pauseStart)) / 1000)\<close>, the sum
  taken over all pause intervals of the record, for any number of pauses.
\<close>

theorem total_field_net_elapsed_seconds:
  assumes "PartialSessionLog.mode session = Focus"
  shows "logLine H session =
           ''- '' @ tomato @ '' Focus | Task:: '' @ taskStr session
           @ '' | Start:: '' @ dateTimeFormat H (startTime session)
           @ '' | End:: '' @ dateTimeFormat H (endTime session)
           @ '' | Scheduled:: '' @ numberToString (scheduledSeconds session)
           @ '' | Pauses:: '' @ jsonStringify (pauseStrings H (pauses session))
           @ '' | Total:: ''
           @ numberToString
               (((endTime session - startTime session)
                   - (\<Sum>p\<leftarrow>pauses session. snd p - fst p)) div 1000)
           @ '' | Status:: '' @ statusString (status session)"
  using assms by (simp add: logLine_def totalSeconds_def totalPauseMs_sum)

theorem total_field_net_elapsed_seconds_witness:
  "PartialSessionLog.mode (asSessionLog exampleFocus 1766327100000 Finished) = Focus
   \<and> logLine utcHost (asSessionLog exampleFocus 1766327100000 Finished) =
       ''- '' @ tomato @ '' Focus | Task:: [[Path/To/File.md|Task Name #tag]]''
       @ '' | Start:: 2025-12-21 14:00:00 | End:: 2025-12-21 14:25:00 | Scheduled:: 1500''
       @ '' | Pauses:: ['' @ [CHR 0x22] @ ''2025-12-21 14:10:00 - 2025-12-21 14:12:00''
       @ [CHR 0x22] @ ''] | Total:: 1380 | Status:: finished''"
  using total_field_net_elapsed_seconds [of "asSessionLog exampleFocus 1766327100000 Finished" utcHost]
  by (simp add: asSessionLog_def exampleFocus_def taskStr_def dateTimeFormat_def utcHost_def
        utcFormat_examples scheduledSeconds_def numberToString_examples pauseStrings_def
        jsonStringify_example statusString_def)

subsection \<open>The recorder\<close>

lemma startSession_fresh:
  "currentSession lm = None \<Longrightarrow>
   currentSession (startSession m n d p t lm) =
     Some \<lparr>PartialSessionLog.mode = m, taskName = orNoTask n, taskPath = p,
           scheduledDurationMinutes = d, startTime = t, pauses = [], status = Cancelled\<rparr>"
  by (simp add: startSession_def)

lemma startSession_active:
  "currentSession lm = Some s \<Longrightarrow> startSession m n d p t lm = resumeSession t lm"
  by (simp add: startSession_def)

lemma resumeSession_open:
  "currentSession lm = Some s \<Longrightarrow> currentPauseStart lm = Some ps \<Longrightarrow>
   resumeSession t lm =
     lm\<lparr>currentSession := Some (s\<lparr>pauses := pauses s @ [(ps, t)]\<rparr>), currentPauseStart := None\<rparr>"
  by (simp add: resumeSession_def)

lemma resumeSession_closed: "currentPauseStart lm = None \<Longrightarrow> resumeSession t lm = lm"
  by (simp add: resumeSession_def split: option.splits)

lemma endSession_active:
  assumes "currentSession lm = Some s"
  shows "endSession H cfg st nowResume nowEnd (lm, v) =
           (lm\<lparr>currentSession := None, currentPauseStart := None\<rparr>,
            writeLog H cfg
              (asSessionLog
                 (case currentPauseStart lm of
                    None \<Rightarrow> s
                  | Some ps \<Rightarrow> s\<lparr>pauses := pauses s @ [(ps, nowResume)]\<rparr>)
                 nowEnd st) v)"
  using assms by (cases "currentPauseStart lm") (simp_all add: endSession_def resumeSession_def)

lemma endSession_idle: "currentSession lm = None \<Longrightarrow> endSession H cfg st nowResume nowEnd (lm, v) = (lm, v)"
  by (simp add: endSession_def)

text \<open>
  C3. A call of \<open>startSession\<close> always leaves a record in place, and a call made while a
  record is in place (so: a second call with no \<open>endSession\<close> in between) creates no new
  record. It keeps \<open>startTime\<close>, \<open>mode\<close> and \<open>scheduledDurationMinutes\<close> (and the task
  and the status) of the record and acts as a resume: with a pause open it appends
  \<open>(pauseStart, now)\<close> to \<open>pauses\<close> and clears the pending pause start; with none open
  it changes nothing.
\<close>

theorem startSession_twice_one_record:
  "(\<exists>s1. currentSession (startSession m1 n1 d1 p1 t1 lm0) = Some s1)
   \<and> (currentSession lm = Some s \<longrightarrow>
        (\<exists>s'. currentSession (startSession m2 n2 d2 p2 t2 lm) = Some s'
           \<and> startTime s' = startTime s
           \<and> PartialSessionLog.mode s' = PartialSessionLog.mode s
           \<and> scheduledDurationMinutes s' = scheduledDurationMinutes s
           \<and> PartialSessionLog.taskName s' = PartialSessionLog.taskName s
           \<and> taskPath s' = taskPath s \<and> status s' = status s
           \<and> (case currentPauseStart lm of
                 None \<Rightarrow> startSession m2 n2 d2 p2 t2 lm = lm
               | Some pauseStart \<Rightarrow>
                   pauses s' = pauses s @ [(pauseStart, t2)]
                   \<and> currentPauseStart (startSession m2 n2 d2 p2 t2 lm) = None)))"
proof (intro conjI impI)
  show "\<exists>s1. currentSession (startSession m1 n1 d1 p1 t1 lm0) = Some s1"
    by (cases "currentSession lm0"; cases "currentPauseStart lm0")
       (simp_all add: startSession_def resumeSession_def)
next
  assume active: "currentSession lm = Some s"
  show "\<exists>s'. currentSession (startSession m2 n2 d2 p2 t2 lm) = Some s'
           \<and> startTime s' = startTime s
           \<and> PartialSessionLog.mode s' = PartialSessionLog.mode s
           \<and> scheduledDurationMinutes s' = scheduledDurationMinutes s
           \<and> PartialSessionLog.taskName s' = PartialSessionLog.taskName s
           \<and> taskPath s' = taskPath s \<and> status s' = status s
           \<and> (case currentPauseStart lm of
                 None \<Rightarrow> startSession m2 n2 d2 p2 t2 lm = lm
               | Some pauseStart \<Rightarrow>
                   pauses s' = pauses s @ [(pauseStart, t2)]
                   \<and> currentPauseStart (startSession m2 n2 d2 p2 t2 lm) = None)"
  proof (cases "currentPauseStart lm")
    case None
    with active show ?thesis
      by (simp add: startSession_active resumeSession_closed)
  next
    case (Some ps)
    with active show ?thesis
      by (simp add: startSession_active resumeSession_open)
  qed
qed

theorem startSession_twice_one_record_witness:
  "currentSession (pauseSession 1766326200000
       (startSession Focus ''Write'' 25 None 1766325600000 idleRecorder))
     = Some \<lparr>PartialSessionLog.mode = Focus, taskName = ''Write'', taskPath = None,
             scheduledDurationMinutes = 25, startTime = 1766325600000, pauses = [],
             status = Cancelled\<rparr>
   \<and> startSession Break ''Other'' 5 (Some ''x.md'') 1766326320000
       (pauseSession 1766326200000
          (startSession Focus ''Write'' 25 None 1766325600000 idleRecorder))
     = \<lparr>currentSession = Some
          \<lparr>PartialSessionLog.mode = Focus, taskName = ''Write'', taskPath = None,
           scheduledDurationMinutes = 25, startTime = 1766325600000,
           pauses = [(1766326200000, 1766326320000)], status = Cancelled\<rparr>,
        currentPauseStart = None\<rparr>"
  using startSession_twice_one_record
    [of Focus "''Write''" 25 None 1766325600000 idleRecorder
        "pauseSession 1766326200000 (startSession Focus ''Write'' 25 None 1766325600000 idleRecorder)"
        "\<lparr>PartialSessionLog.mode = Focus, taskName = ''Write'', taskPath = None,
          scheduledDurationMinutes = 25, startTime = 1766325600000, pauses = [],
          status = Cancelled\<rparr>"
        Break "''Other''" 5 "Some ''x.md''" 1766326320000]
  by (simp add: startSession_def pauseSession_def resumeSession_def idleRecorder_def orNoTask_def)

text \<open>
  C9. On a recorder with a record in place, a second \<open>pauseSession\<close> with no resume or
  end in between overwrites the pending pause start: the state is the one a single pause
  at the later instant gives, no interval is appended by either call, and the interval
  that the next resume (through \<open>startSession\<close>) or \<open>endSession\<close> appends starts at the
  later instant.
\<close>

theorem pauseSession_twice_overwrites:
  assumes "currentSession lm = Some s"
  shows "pauseSession t2 (pauseSession t1 lm) = lm\<lparr>currentPauseStart := Some t2\<rparr>
       \<and> currentSession (pauseSession t1 lm) = Some s
       \<and> currentSession (pauseSession t2 (pauseSession t1 lm)) = Some s
       \<and> startSession m n d p t3 (pauseSession t2 (pauseSession t1 lm)) =
           lm\<lparr>currentSession := Some (s\<lparr>pauses := pauses s @ [(t2, t3)]\<rparr>),
              currentPauseStart := None\<rparr>
       \<and> endSession H cfg st t3 t4 (pauseSession t2 (pauseSession t1 lm), v) =
           (lm\<lparr>currentSession := None, currentPauseStart := None\<rparr>,
            writeLog H cfg (asSessionLog (s\<lparr>pauses := pauses s @ [(t2, t3)]\<rparr>) t4 st) v)"
proof -
  have twice: "pauseSession t2 (pauseSession t1 lm) = lm\<lparr>currentPauseStart := Some t2\<rparr>"
    using assms by (simp add: pauseSession_def)
  have once: "currentSession (pauseSession t1 lm) = Some s"
    using assms by (simp add: pauseSession_def)
  have resume: "startSession m n d p t3 (lm\<lparr>currentPauseStart := Some t2\<rparr>) =
      lm\<lparr>currentSession := Some (s\<lparr>pauses := pauses s @ [(t2, t3)]\<rparr>), currentPauseStart := None\<rparr>"
    using assms by (simp add: startSession_def resumeSession_def)
  have ending: "endSession H cfg st t3 t4 (lm\<lparr>currentPauseStart := Some t2\<rparr>, v) =
      (lm\<lparr>currentSession := None, currentPauseStart := None\<rparr>,
       writeLog H cfg (asSessionLog (s\<lparr>pauses := pauses s @ [(t2, t3)]\<rparr>) t4 st) v)"
    using assms by (simp add: endSession_def resumeSession_def)
  show ?thesis
    using assms once by (simp add: twice resume ending)
qed

theorem pauseSession_twice_overwrites_witness:
  "currentSession focusRecorder = Some exampleFocus
   \<and> pauseSession 1766326800000 (pauseSession 1766326500000 focusRecorder)
       = \<lparr>currentSession = Some exampleFocus, currentPauseStart = Some 1766326800000\<rparr>
   \<and> currentSession
         (startSession Focus ''Task Name #tag'' 25 None 1766327100000
            (pauseSession 1766326800000 (pauseSession 1766326500000 focusRecorder)))
       = Some (exampleFocus\<lparr>pauses :=
                 [(1766326200000, 1766326320000), (1766326800000, 1766327100000)]\<rparr>)"
  using pauseSession_twice_overwrites
    [where lm = focusRecorder and s = exampleFocus and ?t1.0 = 1766326500000
       and ?t2.0 = 1766326800000 and ?t3.0 = 1766327100000 and ?t4.0 = 1766327100000
       and m = Focus and n = "''Task Name #tag''" and d = 25 and p = None
       and H = utcHost and cfg = exampleSettings and st = Finished and v = "[]"]
  by (simp add: focusRecorder_def exampleFocus_def pauseSession_def startSession_def
        resumeSession_def)
subsection \<open>The record handed to writeLog, and the order of its pauses\<close>

lemma endSession_finalRecord:
  "endSession H cfg st nowResume nowEnd (lm, v) =
     (case finalRecord lm st nowResume nowEnd of
        None \<Rightarrow> (lm, v)
      | Some session \<Rightarrow>
          (lm\<lparr>currentSession := None, currentPauseStart := None\<rparr>, writeLog H cfg session v))"
  by (cases "currentSession lm"; cases "currentPauseStart lm")
     (simp_all add: endSession_def finalRecord_def resumeSession_def Let_def)

















subsection \<open>The effect of writeLog on the vault\<close>

lemma writeLog_disabled: "logFolderPath cfg = [] \<Longrightarrow> writeLog H cfg session v = v"
  by (simp add: writeLog_def)

lemma writeLog_enabled:
  assumes "logFolderPath cfg \<noteq> []"
  shows "writeLog H cfg session v =
           (case map_of (ensureFolder (logFolder H cfg) v) (logFilePath H cfg session) of
              None \<Rightarrow>
                AList.update (logFilePath H cfg session) (TFile (logLine H session))
                  (ensureFolder (logFolder H cfg) v)
            | Some TFolder \<Rightarrow> ensureFolder (logFolder H cfg) v
            | Some (TFile content) \<Rightarrow>
                AList.update (logFilePath H cfg session)
                  (TFile (content @ [CHR 0x0A] @ logLine H session))
                  (ensureFolder (logFolder H cfg) v))"
  using assms
  by (simp add: writeLog_def Let_def adapter_exists_def getAbstractFileByPath_def
        vault_append_def vault_create_def split: option.splits node.splits)

lemma map_of_ensureFolder_other:
  "p \<noteq> folder \<Longrightarrow> map_of (ensureFolder folder v) p = map_of v p"
  by (simp add: ensureFolder_def createFolder_def update_conv')

lemma writeLog_frame:
  assumes "p \<noteq> logFilePath H cfg session" and "p \<noteq> logFolder H cfg"
  shows "map_of (writeLog H cfg session v) p = map_of v p"
proof (cases "logFolderPath cfg = []")
  case True
  then show ?thesis by (simp add: writeLog_disabled)
next
  case False
  with assms show ?thesis
    by (simp add: writeLog_enabled update_conv' map_of_ensureFolder_other
          split: option.splits node.splits)
qed

lemma writeLog_target:
  assumes "logFolderPath cfg \<noteq> []"
    and "map_of (ensureFolder (logFolder H cfg) v) (logFilePath H cfg session) \<noteq> Some TFolder"
  shows "map_of (writeLog H cfg session v) (logFilePath H cfg session) =
           Some (TFile
             ((case map_of (ensureFolder (logFolder H cfg) v) (logFilePath H cfg session) of
                 Some (TFile content) \<Rightarrow> content @ [CHR 0x0A]
               | _ \<Rightarrow> [])
              @ logLine H session))"
  using assms
  by (simp add: writeLog_enabled update_conv' split: option.splits node.splits)

subsection \<open>The timer\<close>

lemma switchMode_stopped:
  "switchMode m False nowMoment now P =
     P\<lparr>timer := (timer P)
          \<lparr>state := \<lparr>mode = m, isRunning = False,
                      remainingMs = minutesFor (settings P) m * 60 * 1000,
                      totalMs = minutesFor (settings P) m * 60 * 1000,
                      taskName = currentTaskName (timer P)\<rparr>,
           emitted := emitted (timer P) @
                      [\<lparr>mode = m, isRunning = False,
                        remainingMs = minutesFor (settings P) m * 60 * 1000,
                        totalMs = minutesFor (settings P) m * 60 * 1000,
                        taskName = currentTaskName (timer P)\<rparr>],
           targetTime := None, intervalActive := False\<rparr>\<rparr>"
  by (simp add: switchMode_def Let_def emit_def clearLoop_def)

lemma endSessionOf_parts:
  "timer (endSessionOf H st nowResume nowEnd P) = timer P"
  "settings (endSessionOf H st nowResume nowEnd P) = settings P"
  "logManager (endSessionOf H st nowResume nowEnd P) =
     fst (endSession H (settings P) st nowResume nowEnd (logManager P, files P))"
  "files (endSessionOf H st nowResume nowEnd P) =
     snd (endSession H (settings P) st nowResume nowEnd (logManager P, files P))"
  by (simp_all add: endSessionOf_def Let_def)

lemma endSession_clears:
  "currentSession (fst (endSession H cfg st nowResume nowEnd (lm, v))) = None"
  by (cases "currentSession lm"; cases "currentPauseStart lm")
     (simp_all add: endSession_def resumeSession_def Let_def)

text \<open>
  C7. \<open>start\<close> on a running timer, \<open>pause\<close> on a timer that is not running and
  \<open>endSession\<close> on a recorder with no record return the state they were given: timer,
  recorder and log files are unchanged and nothing is emitted. The three functions are
  total and have no error result.
\<close>

theorem idempotent_no_ops:
  "(isRunning (state (timer P)) \<longrightarrow> start nowMoment now P = P)
   \<and> (\<not> isRunning (state (timer P)) \<longrightarrow> pause nowMoment P = P)
   \<and> (currentSession lm = None \<longrightarrow>
        endSession H cfg st nowResume nowEnd (lm, v) = (lm, v))
   \<and> (currentSession (logManager P) = None \<longrightarrow>
        endSessionOf H st nowResume nowEnd P = P)"
  by (simp add: start_def pause_def endSession_idle endSessionOf_def)

theorem idempotent_no_ops_witness:
  "isRunning (state (timer runningPlugin))
   \<and> start 1766326200000 1766326200000 runningPlugin = runningPlugin
   \<and> \<not> isRunning (state (timer stoppedPlugin))
   \<and> pause 1766326200000 stoppedPlugin = stoppedPlugin
   \<and> currentSession (logManager stoppedPlugin) = None
   \<and> endSessionOf utcHost Finished 1766326200000 1766326200000 stoppedPlugin = stoppedPlugin"
  using idempotent_no_ops
          [where P = runningPlugin and nowMoment = 1766326200000 and now = 1766326200000
             and lm = idleRecorder]
        idempotent_no_ops
          [where P = stoppedPlugin and nowMoment = 1766326200000 and H = utcHost
             and st = Finished and nowResume = 1766326200000 and nowEnd = 1766326200000
             and lm = idleRecorder]
  by (simp add: runningPlugin_def runningTimer_def stoppedPlugin_def stoppedTimer_def
        idleRecorder_def)

text \<open>
  C8. \<open>addMinutes delta\<close> sets \<open>totalMs\<close> to \<open>max (totalMs + delta * 60000) 60000\<close> and
  \<open>remainingMs\<close> to \<open>min (remainingMs + delta * 60000)\<close> of the new total. On a running
  timer the wall-clock target moves by the change of \<open>remainingMs\<close> after the clamp; on a
  timer that is not running the target is left as it is. Mode and running flag, recorder
  and files are untouched.
\<close>

theorem addMinutes_clamp_and_shift:
  "totalMs (state (timer (addMinutes delta P)))
     = max (totalMs (state (timer P)) + delta * 60000) 60000
   \<and> remainingMs (state (timer (addMinutes delta P)))
     = min (remainingMs (state (timer P)) + delta * 60000)
           (totalMs (state (timer (addMinutes delta P))))
   \<and> targetTime (timer (addMinutes delta P))
     = (if isRunning (state (timer P))
        then map_option
               (\<lambda>t. t + (remainingMs (state (timer (addMinutes delta P)))
                            - remainingMs (state (timer P))))
               (targetTime (timer P))
        else targetTime (timer P))
   \<and> mode (state (timer (addMinutes delta P))) = mode (state (timer P))
   \<and> isRunning (state (timer (addMinutes delta P))) = isRunning (state (timer P))
   \<and> logManager (addMinutes delta P) = logManager P
   \<and> files (addMinutes delta P) = files P"
  by (cases "targetTime (timer P)") (simp_all add: addMinutes_def Let_def emit_def max_def min_def)

theorem addMinutes_clamp_and_shift_witness:
  "totalMs (state (timer (addMinutes (- 30) runningPlugin))) = 60000
   \<and> remainingMs (state (timer (addMinutes (- 30) runningPlugin))) = - 1680000
   \<and> targetTime (timer (addMinutes (- 30) runningPlugin)) = Some 1766325420000
   \<and> totalMs (state (timer (addMinutes 5 runningPlugin))) = 1800000
   \<and> remainingMs (state (timer (addMinutes 5 runningPlugin))) = 420000
   \<and> targetTime (timer (addMinutes 5 runningPlugin)) = Some 1766327520000"
  using addMinutes_clamp_and_shift [of "- 30" runningPlugin]
        addMinutes_clamp_and_shift [of 5 runningPlugin]
  by (simp add: runningPlugin_def runningTimer_def addMinutes_def Let_def emit_def)

lemma setTask_parts:
  "files (setTask name path P) = files P"
  "settings (setTask name path P) = settings P"
  "logManager (setTask name path P) = updateTask name path (logManager P)"
  "state (timer (setTask name path P)) = (state (timer P))\<lparr>taskName := name\<rparr>"
  "targetTime (timer (setTask name path P)) = targetTime (timer P)"
  "intervalActive (timer (setTask name path P)) = intervalActive (timer P)"
  by (simp_all add: setTask_def Let_def emit_def)

lemma updateTask_idle: "currentSession lm = None \<Longrightarrow> updateTask name path lm = lm"
  by (simp add: updateTask_def)

lemma skip_files_recorder:
  "files (skip H u nowResume nowEnd P) =
     snd (endSession H (settings P)
            (if mode (state (timer P)) = Focus then Cancelled else Finished) nowResume nowEnd
            (if u = UnlinkBeforeLine \<and> unlinkGuard P
             then updateTask ''No Task'' None (logManager P) else logManager P, files P))"
  "currentSession (logManager (skip H u nowResume nowEnd P)) = None"
  "settings (skip H u nowResume nowEnd P) = settings P"
  by (cases u; cases "unlinkGuard P";
      simp add: skip_def Let_def switchMode_stopped endSessionOf_parts endSession_clears
        setTask_parts updateTask_idle)+

lemma skip_timer:
  "state (timer (skip H u nowResume nowEnd P)) =
     \<lparr>mode = (if mode (state (timer P)) = Focus then Break else Focus),
      isRunning = False,
      remainingMs = minutesFor (settings P)
                      (if mode (state (timer P)) = Focus then Break else Focus) * 60000,
      totalMs = minutesFor (settings P)
                  (if mode (state (timer P)) = Focus then Break else Focus) * 60000,
      taskName = (if u \<noteq> NoUnlink \<and> unlinkGuard P then ''No Task''
                  else currentTaskName (timer P))\<rparr>"
  "targetTime (timer (skip H u nowResume nowEnd P)) = None"
  "intervalActive (timer (skip H u nowResume nowEnd P)) = False"
  by (cases u; cases "unlinkGuard P";
      simp add: skip_def Let_def switchMode_stopped endSessionOf_parts setTask_parts)+

lemma finalRecord_active:
  "currentSession lm = Some s \<Longrightarrow>
   finalRecord lm st nowResume nowEnd =
     Some (asSessionLog
             (case currentPauseStart lm of
                None \<Rightarrow> s
              | Some pauseStart \<Rightarrow> s\<lparr>pauses := pauses s @ [(pauseStart, nowResume)]\<rparr>)
             nowEnd st)"
  by (simp add: finalRecord_def)

lemma writeLog_focus_status:
  assumes "PartialSessionLog.mode session = Focus"
    and "logFolderPath cfg \<noteq> []"
    and "map_of (ensureFolder (logFolder H cfg) v) (logFilePath H cfg session) \<noteq> Some TFolder"
  shows "\<exists>before. map_of (writeLog H cfg session v) (logFilePath H cfg session)
           = Some (TFile (before @ '' | Status:: '' @ statusString (status session)))"
proof -
  have "logLine H session =
      (''- '' @ tomato @ '' Focus | Task:: '' @ taskStr session
       @ '' | Start:: '' @ dateTimeFormat H (startTime session)
       @ '' | End:: '' @ dateTimeFormat H (endTime session)
       @ '' | Scheduled:: '' @ numberToString (scheduledSeconds session)
       @ '' | Pauses:: '' @ jsonStringify (pauseStrings H (pauses session))
       @ '' | Total:: '' @ numberToString (totalSeconds session))
      @ '' | Status:: '' @ statusString (status session)"
    using assms(1) by (simp add: logLine_def)
  then obtain pre where line: "logLine H session = pre @ '' | Status:: '' @ statusString (status session)"
    by blast
  have "map_of (writeLog H cfg session v) (logFilePath H cfg session) =
      Some (TFile
        (((case map_of (ensureFolder (logFolder H cfg) v) (logFilePath H cfg session) of
            Some (TFile content) \<Rightarrow> content @ [CHR 0x0A]
          | _ \<Rightarrow> []) @ pre) @ '' | Status:: '' @ statusString (status session)))"
    using writeLog_target [OF assms(2,3)] line by simp
  then show ?thesis by blast
qed

text \<open>
  C5. \<open>skip\<close> ends the session with status \<open>cancelled\<close> when the timer is in focus mode
  and \<open>finished\<close> when it is in break mode: what it leaves in the files is what
  \<open>writeLog\<close> makes of the record in progress, finalized with that status, the end time
  and an open pause closed (and with the task unlinked, when the task-completion check
  unlinks it before the line is built); the line of a focus record, when it is written,
  ends with that status. Then the timer is in the stopped state of the other mode: not
  running, no wall-clock target, no tick loop, \<open>remainingMs = totalMs\<close> = the configured
  minutes of that mode, and the recorder holds no record (nothing is auto-started). This
  holds whatever the deferred task-completion check does.
\<close>

theorem skip_status_then_next_mode:
  "files (skip H u nowResume nowEnd P) =
     (case finalRecord
             (if u = UnlinkBeforeLine \<and> unlinkGuard P
              then updateTask ''No Task'' None (logManager P) else logManager P)
             (if mode (state (timer P)) = Focus then Cancelled else Finished)
             nowResume nowEnd of
        None \<Rightarrow> files P
      | Some session \<Rightarrow> writeLog H (settings P) session (files P))
   \<and> (currentSession (logManager P) = Some s \<longrightarrow>
        (\<exists>session.
           finalRecord
             (if u = UnlinkBeforeLine \<and> unlinkGuard P
              then updateTask ''No Task'' None (logManager P) else logManager P)
             (if mode (state (timer P)) = Focus then Cancelled else Finished)
             nowResume nowEnd = Some session
           \<and> status session = (if mode (state (timer P)) = Focus then Cancelled else Finished)
           \<and> endTime session = nowEnd
           \<and> startTime session = startTime s
           \<and> PartialSessionLog.mode session = PartialSessionLog.mode s
           \<and> scheduledDurationMinutes session = scheduledDurationMinutes s
           \<and> pauses session =
               (case currentPauseStart (logManager P) of
                  None \<Rightarrow> pauses s
                | Some pauseStart \<Rightarrow> pauses s @ [(pauseStart, nowResume)])
           \<and> PartialSessionLog.taskName session =
               (if u = UnlinkBeforeLine \<and> unlinkGuard P then ''No Task''
                else PartialSessionLog.taskName s)
           \<and> (PartialSessionLog.mode s = Focus \<and> logFolderPath (settings P) \<noteq> []
                \<and> map_of (ensureFolder (logFolder H (settings P)) (files P))
                     (logFilePath H (settings P) session) \<noteq> Some TFolder
              \<longrightarrow> (\<exists>before.
                     map_of (files (skip H u nowResume nowEnd P))
                       (logFilePath H (settings P) session)
                     = Some (TFile (before @ '' | Status:: ''
                          @ (if mode (state (timer P)) = Focus
                             then ''cancelled'' else ''finished'')))))))
   \<and> currentSession (logManager (skip H u nowResume nowEnd P)) = None
   \<and> mode (state (timer (skip H u nowResume nowEnd P)))
       = (if mode (state (timer P)) = Focus then Break else Focus)
   \<and> isRunning (state (timer (skip H u nowResume nowEnd P))) = False
   \<and> remainingMs (state (timer (skip H u nowResume nowEnd P)))
       = minutesFor (settings P)
           (if mode (state (timer P)) = Focus then Break else Focus) * 60000
   \<and> totalMs (state (timer (skip H u nowResume nowEnd P)))
       = minutesFor (settings P)
           (if mode (state (timer P)) = Focus then Break else Focus) * 60000
   \<and> targetTime (timer (skip H u nowResume nowEnd P)) = None
   \<and> intervalActive (timer (skip H u nowResume nowEnd P)) = False
   \<and> taskName (state (timer (skip H u nowResume nowEnd P)))
       = (if u \<noteq> NoUnlink \<and> unlinkGuard P then ''No Task'' else currentTaskName (timer P))
   \<and> settings (skip H u nowResume nowEnd P) = settings P"
proof -
  let ?lm = "if u = UnlinkBeforeLine \<and> unlinkGuard P
             then updateTask ''No Task'' None (logManager P) else logManager P"
  let ?st = "if mode (state (timer P)) = Focus then Cancelled else Finished"
  have written: "files (skip H u nowResume nowEnd P) =
     (case finalRecord ?lm ?st nowResume nowEnd of
        None \<Rightarrow> files P
      | Some session \<Rightarrow> writeLog H (settings P) session (files P))"
    by (simp only: skip_files_recorder(1) endSession_finalRecord split: option.split) simp
  have finalized: "\<exists>session.
           finalRecord ?lm ?st nowResume nowEnd = Some session
           \<and> status session = ?st
           \<and> endTime session = nowEnd
           \<and> startTime session = startTime s
           \<and> PartialSessionLog.mode session = PartialSessionLog.mode s
           \<and> scheduledDurationMinutes session = scheduledDurationMinutes s
           \<and> pauses session =
               (case currentPauseStart (logManager P) of
                  None \<Rightarrow> pauses s
                | Some pauseStart \<Rightarrow> pauses s @ [(pauseStart, nowResume)])
           \<and> PartialSessionLog.taskName session =
               (if u = UnlinkBeforeLine \<and> unlinkGuard P then ''No Task''
                else PartialSessionLog.taskName s)
           \<and> (PartialSessionLog.mode s = Focus \<and> logFolderPath (settings P) \<noteq> []
                \<and> map_of (ensureFolder (logFolder H (settings P)) (files P))
                     (logFilePath H (settings P) session) \<noteq> Some TFolder
              \<longrightarrow> (\<exists>before.
                     map_of (files (skip H u nowResume nowEnd P))
                       (logFilePath H (settings P) session)
                     = Some (TFile (before @ '' | Status:: ''
                          @ (if mode (state (timer P)) = Focus
                             then ''cancelled'' else ''finished'')))))"
    if active: "currentSession (logManager P) = Some s"
  proof -
    let ?s' = "if u = UnlinkBeforeLine \<and> unlinkGuard P
               then s\<lparr>PartialSessionLog.taskName := ''No Task'', taskPath := None\<rparr> else s"
    have s': "currentSession ?lm = Some ?s'"
      using active by (simp add: updateTask_def orNoTask_def)
    have same: "startTime ?s' = startTime s"
        "PartialSessionLog.mode ?s' = PartialSessionLog.mode s"
        "scheduledDurationMinutes ?s' = scheduledDurationMinutes s"
        "pauses ?s' = pauses s"
        "PartialSessionLog.taskName ?s' =
           (if u = UnlinkBeforeLine \<and> unlinkGuard P then ''No Task''
            else PartialSessionLog.taskName s)"
      by simp_all
    have pending: "currentPauseStart ?lm = currentPauseStart (logManager P)"
      using active by (simp add: updateTask_def)
    let ?session = "asSessionLog
             (case currentPauseStart ?lm of
                None \<Rightarrow> ?s'
              | Some pauseStart \<Rightarrow> ?s'\<lparr>pauses := pauses ?s' @ [(pauseStart, nowResume)]\<rparr>)
             nowEnd ?st"
    have fin: "finalRecord ?lm ?st nowResume nowEnd = Some ?session"
      using s' by (rule finalRecord_active)
    have fields: "status ?session = ?st" "endTime ?session = nowEnd"
      "startTime ?session = startTime s"
      "PartialSessionLog.mode ?session = PartialSessionLog.mode s"
      "scheduledDurationMinutes ?session = scheduledDurationMinutes s"
      "pauses ?session =
               (case currentPauseStart (logManager P) of
                  None \<Rightarrow> pauses s
                | Some pauseStart \<Rightarrow> pauses s @ [(pauseStart, nowResume)])"
      "PartialSessionLog.taskName ?session =
               (if u = UnlinkBeforeLine \<and> unlinkGuard P then ''No Task''
                else PartialSessionLog.taskName s)"
      using same pending
      by (cases "currentPauseStart (logManager P)"; simp add: asSessionLog_def)+
    have line: "\<exists>before.
                     map_of (files (skip H u nowResume nowEnd P))
                       (logFilePath H (settings P) ?session)
                     = Some (TFile (before @ '' | Status:: ''
                          @ (if mode (state (timer P)) = Focus
                             then ''cancelled'' else ''finished'')))"
      if "PartialSessionLog.mode s = Focus \<and> logFolderPath (settings P) \<noteq> []
                \<and> map_of (ensureFolder (logFolder H (settings P)) (files P))
                     (logFilePath H (settings P) ?session) \<noteq> Some TFolder"
    proof -
      have "\<exists>before. map_of (writeLog H (settings P) ?session (files P))
                (logFilePath H (settings P) ?session)
           = Some (TFile (before @ '' | Status:: '' @ statusString (status ?session)))"
        using that fields(4) by (intro writeLog_focus_status) simp_all
      moreover have "files (skip H u nowResume nowEnd P)
          = writeLog H (settings P) ?session (files P)"
        using written fin by simp
      moreover have "statusString (status ?session) =
          (if mode (state (timer P)) = Focus then ''cancelled'' else ''finished'')"
        by (simp add: fields(1) statusString_def)
      ultimately show ?thesis by simp
    qed
    from fin fields line show ?thesis by blast
  qed
  from written finalized show ?thesis
    by (simp add: skip_files_recorder(2,3) skip_timer)
qed

theorem skip_status_then_next_mode_witness:
  "files (skip utcHost NoUnlink 1766327100000 1766327100000 runningPlugin)
     = [(''Pomodoro_logs'', TFolder),
        (''Pomodoro_logs/2025-12-21-gentle-pomodoro-log.md'',
         TFile
           (''- '' @ tomato @ '' Focus | Task:: [[Path/To/File.md|Task Name #tag]]''
            @ '' | Start:: 2025-12-21 14:00:00 | End:: 2025-12-21 14:25:00''
            @ '' | Scheduled:: 1500 | Pauses:: ['' @ [CHR 0x22]
            @ ''2025-12-21 14:10:00 - 2025-12-21 14:12:00'' @ [CHR 0x22]
            @ ''] | Total:: 1380 | Status:: cancelled''))]
   \<and> currentSession
         (logManager (skip utcHost NoUnlink 1766327100000 1766327100000 runningPlugin))
     = None
   \<and> state (timer (skip utcHost NoUnlink 1766327100000 1766327100000 runningPlugin))
     = \<lparr>mode = Break, isRunning = False, remainingMs = 300000, totalMs = 300000,
        taskName = ''Task Name #tag''\<rparr>
   \<and> files (skip utcHost NoUnlink 1766327100000 1766327100000
              (restPlugin\<lparr>logManager := focusRecorder\<rparr>))
     = [(''Pomodoro_logs'', TFolder),
        (''Pomodoro_logs/2025-12-21-gentle-pomodoro-log.md'',
         TFile
           (''- '' @ tomato @ '' Focus | Task:: [[Path/To/File.md|Task Name #tag]]''
            @ '' | Start:: 2025-12-21 14:00:00 | End:: 2025-12-21 14:25:00''
            @ '' | Scheduled:: 1500 | Pauses:: ['' @ [CHR 0x22]
            @ ''2025-12-21 14:10:00 - 2025-12-21 14:12:00'' @ [CHR 0x22]
            @ ''] | Total:: 1380 | Status:: finished''))]
   \<and> files (skip utcHost NoUnlink 1766327400000 1766327400000 restPlugin)
     = [(''Pomodoro_logs'', TFolder),
        (''Pomodoro_logs/2025-12-21-gentle-pomodoro-log.md'',
         TFile
           (''- '' @ hotBeverage
            @ '' Rest | Start:: 2025-12-21 14:25:00 | End:: 2025-12-21 14:30:00''
            @ '' | Scheduled:: 300 | Total:: 300''))]
   \<and> state (timer (skip utcHost NoUnlink 1766327400000 1766327400000 restPlugin))
     = \<lparr>mode = Focus, isRunning = False, remainingMs = 1500000, totalMs = 1500000,
        taskName = ''No Task''\<rparr>
   \<and> unlinkGuard linkedPlugin
   \<and> map_of (files (skip utcHost UnlinkBeforeLine 1766327100000 1766327100000 linkedPlugin))
         ''Pomodoro_logs/2025-12-21-gentle-pomodoro-log.md''
     = Some (TFile
           (''- '' @ tomato @ '' Focus | Task:: No Task''
            @ '' | Start:: 2025-12-21 14:00:00 | End:: 2025-12-21 14:25:00''
            @ '' | Scheduled:: 1500 | Pauses:: ['' @ [CHR 0x22]
            @ ''2025-12-21 14:10:00 - 2025-12-21 14:12:00'' @ [CHR 0x22]
            @ ''] | Total:: 1380 | Status:: cancelled''))
   \<and> state (timer (skip utcHost UnlinkBeforeLine 1766327100000 1766327100000 linkedPlugin))
     = \<lparr>mode = Break, isRunning = False, remainingMs = 300000, totalMs = 300000,
        taskName = ''No Task''\<rparr>"
  using skip_status_then_next_mode
          [where H = utcHost and u = NoUnlink and P = runningPlugin and s = exampleFocus
             and nowResume = 1766327100000 and nowEnd = 1766327100000]
        skip_status_then_next_mode
          [where H = utcHost and u = NoUnlink
             and P = "restPlugin\<lparr>logManager := focusRecorder\<rparr>" and s = exampleFocus
             and nowResume = 1766327100000 and nowEnd = 1766327100000]
        skip_status_then_next_mode
          [where H = utcHost and u = NoUnlink and P = restPlugin and s = exampleRest
             and nowResume = 1766327400000 and nowEnd = 1766327400000]
        skip_status_then_next_mode
          [where H = utcHost and u = UnlinkBeforeLine and P = linkedPlugin and s = exampleFocus
             and nowResume = 1766327100000 and nowEnd = 1766327100000]
  by (simp add: runningPlugin_def runningTimer_def restPlugin_def restTimer_def
        linkedPlugin_def unlinkGuard_def focusRecorder_def restRecorder_def idleRecorder_def
        finalRecord_def updateTask_def orNoTask_def
        writeLog_def exampleSettings_def DEFAULT_SETTINGS_def minutesFor_def
        logFolder_def logFilePath_def utcHost_def ensureFolder_def adapter_exists_def
        createFolder_def vault_create_def getAbstractFileByPath_def asSessionLog_def
        exampleFocus_def exampleRest_def logLine_def dateTimeFormat_def utcFormat_examples
        taskStr_def scheduledSeconds_def numberToString_examples totalSeconds_def
        totalPauseMs_def pauseStrings_def jsonStringify_example
        statusString_def skip_files_recorder skip_timer endSession_def)

subsection \<open>Writing the log\<close>






lemma logLine_focus:
  "PartialSessionLog.mode session = Focus \<Longrightarrow>
   logLine H session =
     ''- '' @ tomato @ '' Focus | Task:: '' @ taskStr session
     @ '' | Start:: '' @ dateTimeFormat H (startTime session)
     @ '' | End:: '' @ dateTimeFormat H (endTime session)
     @ '' | Scheduled:: '' @ numberToString (scheduledSeconds session)
     @ '' | Pauses:: '' @ jsonStringify (pauseStrings H (pauses session))
     @ '' | Total:: '' @ numberToString (totalSeconds session)
     @ '' | Status:: '' @ statusString (status session)"
  by (simp add: logLine_def)





text \<open>
  C6, as amended. With a log folder configured, and the path of the day's log file not
  taken by a folder, the line of a finalized record is written to the file
  \<open>normalizePath (normalizePath folder + "/" + date + "-gentle-pomodoro-log.md")\<close>,
  \<open>date\<close> being the \<open>YYYY-MM-DD\<close> text of \<open>startTime\<close>: afterwards that file ends with
  the line, and no other file has changed. The path does not depend on \<open>endTime\<close>. With
  no log folder configured, or with the path taken by a folder, nothing is written.
\<close>

theorem log_file_keyed_by_start_date:
  assumes "logFolderPath cfg \<noteq> []"
    and "map_of (ensureFolder (logFolder H cfg) v) (logFilePath H cfg session) \<noteq> Some TFolder"
  shows "logFilePath H cfg session =
           normalizePath H
             (normalizePath H (logFolderPath cfg) @ ''/''
              @ momentFormat H ''YYYY-MM-DD'' (startTime session)
              @ ''-gentle-pomodoro-log.md'')
       \<and> logFilePath H cfg (session\<lparr>endTime := e\<rparr>) = logFilePath H cfg session
       \<and> map_of (writeLog H cfg session v) (logFilePath H cfg session) =
           Some (TFile
             ((case map_of (ensureFolder (logFolder H cfg) v) (logFilePath H cfg session) of
                 Some (TFile content) \<Rightarrow> content @ [CHR 0x0A]
               | _ \<Rightarrow> [])
              @ logLine H session))
       \<and> (\<forall>p. p \<noteq> logFilePath H cfg session \<and> p \<noteq> logFolder H cfg
              \<longrightarrow> map_of (writeLog H cfg session v) p = map_of v p)"
proof (intro conjI allI impI)
  show "logFilePath H cfg session =
           normalizePath H
             (normalizePath H (logFolderPath cfg) @ ''/''
              @ momentFormat H ''YYYY-MM-DD'' (startTime session)
              @ ''-gentle-pomodoro-log.md'')"
    by (simp add: logFilePath_def logFolder_def)
  show "logFilePath H cfg (session\<lparr>endTime := e\<rparr>) = logFilePath H cfg session"
    by (simp add: logFilePath_def)
  show "map_of (writeLog H cfg session v) (logFilePath H cfg session) =
           Some (TFile
             ((case map_of (ensureFolder (logFolder H cfg) v) (logFilePath H cfg session) of
                 Some (TFile content) \<Rightarrow> content @ [CHR 0x0A]
               | _ \<Rightarrow> [])
              @ logLine H session))"
    by (rule writeLog_target [OF assms])
next
  fix p
  assume "p \<noteq> logFilePath H cfg session \<and> p \<noteq> logFolder H cfg"
  then show "map_of (writeLog H cfg session v) p = map_of v p"
    by (simp add: writeLog_frame)
qed

theorem log_file_keyed_by_start_date_witness:
  "logFolderPath exampleSettings \<noteq> []
   \<and> dateTimeFormat utcHost (startTime (asSessionLog exampleMidnight 1766361780000 Finished))
     = ''2025-12-21 23:58:00''
   \<and> dateTimeFormat utcHost (endTime (asSessionLog exampleMidnight 1766361780000 Finished))
     = ''2025-12-22 00:03:00''
   \<and> logFilePath utcHost exampleSettings (asSessionLog exampleMidnight 1766361780000 Finished)
     = ''Pomodoro_logs/2025-12-21-gentle-pomodoro-log.md''
   \<and> map_of (writeLog utcHost exampleSettings
               (asSessionLog exampleMidnight 1766361780000 Finished) [])
         ''Pomodoro_logs/2025-12-22-gentle-pomodoro-log.md'' = None
   \<and> map_of (writeLog utcHost exampleSettings
               (asSessionLog exampleMidnight 1766361780000 Finished) [])
         ''Pomodoro_logs/2025-12-21-gentle-pomodoro-log.md''
       = Some (TFile (logLine utcHost (asSessionLog exampleMidnight 1766361780000 Finished)))"
  using log_file_keyed_by_start_date
          [where H = utcHost and cfg = exampleSettings and v = "[]"
             and session = "asSessionLog exampleMidnight 1766361780000 Finished"
             and e = 1766361780000]
  by (simp add: exampleSettings_def DEFAULT_SETTINGS_def logFolder_def logFilePath_def
        utcHost_def ensureFolder_def adapter_exists_def createFolder_def asSessionLog_def
        exampleMidnight_def dateTimeFormat_def utcFormat_examples writeLog_def
        getAbstractFileByPath_def vault_create_def)

text \<open>
  Under the default settings, ending the session that runs from 23:58:00 to 00:03:00
  finalizes and clears the record and writes to no file; with a log folder configured
  and the path of the log file of 2025-12-21 taken by a folder, it writes nothing either.
\<close>

theorem no_log_file_without_folder:
  "endSession utcHost DEFAULT_SETTINGS Finished 1766361780000 1766361780000
     (midnightRecorder, []) = (idleRecorder, [])
   \<and> endSession utcHost exampleSettings Finished 1766361780000 1766361780000
     (midnightRecorder, folderAtLogPath) = (idleRecorder, folderAtLogPath)"
  by (simp add: endSession_def midnightRecorder_def idleRecorder_def DEFAULT_SETTINGS_def
        exampleSettings_def writeLog_def folderAtLogPath_def logFolder_def logFilePath_def
        utcHost_def ensureFolder_def adapter_exists_def getAbstractFileByPath_def
        asSessionLog_def exampleMidnight_def utcFormat_examples)

subsection \<open>The task field\<close>

lemma taskStr_linked:
  "taskPath session = Some p \<Longrightarrow> p \<noteq> [] \<Longrightarrow>
   PartialSessionLog.taskName session \<noteq> ''No Task'' \<Longrightarrow>
   taskStr session = ''[['' @ p @ ''|'' @ PartialSessionLog.taskName session @ '']]''"
  by (simp add: taskStr_def Let_def)

lemma taskStr_plain:
  "(\<forall>p. taskPath session = Some p \<longrightarrow> p = [])
     \<or> PartialSessionLog.taskName session = ''No Task'' \<Longrightarrow>
   taskStr session = PartialSessionLog.taskName session"
  by (cases "taskPath session") (auto simp add: taskStr_def Let_def)

lemma not_own_wikilink: "name \<noteq> ''[['' @ p @ ''|'' @ name @ '']]''"
proof
  assume "name = ''[['' @ p @ ''|'' @ name @ '']]''"
  then have "length name = length (''[['' @ p @ ''|'' @ name @ '']]'')"
    by (rule arg_cong)
  then show False by simp
qed

text \<open>
  C10. In the line of a focus record the text after \<open>Task::\<close> is \<open>taskStr\<close>. It is the
  link \<open>[[taskPath|taskName]]\<close> exactly when \<open>taskPath\<close> is set (defined and, as the
  truthiness test of the source has it, not the empty string) and \<open>taskName\<close> is not
  \<open>No Task\<close>; otherwise it is the plain \<open>taskName\<close>, which is \<open>No Task\<close> when no task is
  linked. \<open>startSession\<close> (opening a record) and \<open>updateTask\<close> store \<open>No Task\<close> for an
  empty name and the name itself otherwise.
\<close>

theorem task_field_link_or_name:
  "(PartialSessionLog.mode session = Focus \<longrightarrow>
      (\<exists>rest. logLine H session =
                ''- '' @ tomato @ '' Focus | Task:: '' @ taskStr session
                @ '' | Start:: '' @ rest))
   \<and> ((taskPath session = Some path
        \<and> taskStr session = ''[['' @ path @ ''|'' @ PartialSessionLog.taskName session @ '']]'')
       = (taskPath session = Some path \<and> path \<noteq> []
          \<and> PartialSessionLog.taskName session \<noteq> ''No Task''))
   \<and> ((\<forall>p. taskPath session = Some p \<longrightarrow> p = [])
        \<or> PartialSessionLog.taskName session = ''No Task''
       \<longrightarrow> taskStr session = PartialSessionLog.taskName session)
   \<and> (currentSession lm = None \<longrightarrow>
        map_option PartialSessionLog.taskName
          (currentSession (startSession m name d tp now lm))
        = Some (if name = [] then ''No Task'' else name))
   \<and> (currentSession lm \<noteq> None \<longrightarrow>
        map_option PartialSessionLog.taskName (currentSession (updateTask name tp lm))
        = Some (if name = [] then ''No Task'' else name))"
proof (intro conjI impI)
  assume "PartialSessionLog.mode session = Focus"
  then show "\<exists>rest. logLine H session =
                ''- '' @ tomato @ '' Focus | Task:: '' @ taskStr session
                @ '' | Start:: '' @ rest"
    by (simp add: logLine_focus)
next
  show "(taskPath session = Some path
        \<and> taskStr session = ''[['' @ path @ ''|'' @ PartialSessionLog.taskName session @ '']]'')
       = (taskPath session = Some path \<and> path \<noteq> []
          \<and> PartialSessionLog.taskName session \<noteq> ''No Task'')"
  proof (cases "taskPath session = Some path \<and> path \<noteq> []
          \<and> PartialSessionLog.taskName session \<noteq> ''No Task''")
    case True
    then show ?thesis by (simp add: taskStr_linked)
  next
    case False
    then have "taskPath session = Some path \<Longrightarrow>
               taskStr session = PartialSessionLog.taskName session"
      by (intro taskStr_plain) auto
    with False show ?thesis
      using not_own_wikilink [of "PartialSessionLog.taskName session" path] by auto
  qed
next
  assume "(\<forall>p. taskPath session = Some p \<longrightarrow> p = [])
        \<or> PartialSessionLog.taskName session = ''No Task''"
  then show "taskStr session = PartialSessionLog.taskName session"
    by (rule taskStr_plain)
next
  assume "currentSession lm = None"
  then show "map_option PartialSessionLog.taskName
          (currentSession (startSession m name d tp now lm))
        = Some (if name = [] then ''No Task'' else name)"
    by (simp add: startSession_def orNoTask_def)
next
  assume "currentSession lm \<noteq> None"
  then show "map_option PartialSessionLog.taskName (currentSession (updateTask name tp lm))
        = Some (if name = [] then ''No Task'' else name)"
    by (auto simp add: updateTask_def orNoTask_def)
qed

theorem task_field_link_or_name_witness:
  "taskStr (asSessionLog exampleFocus 1766327100000 Finished)
     = ''[[Path/To/File.md|Task Name #tag]]''
   \<and> taskStr (asSessionLog exampleRest 1766327400000 Finished) = ''No Task''
   \<and> map_option PartialSessionLog.taskName
        (currentSession (startSession Focus [] 25 None 1766325600000 idleRecorder))
     = Some ''No Task''
   \<and> map_option PartialSessionLog.taskName
        (currentSession (updateTask [] None focusRecorder))
     = Some ''No Task''
   \<and> map_option PartialSessionLog.taskName
        (currentSession (updateTask ''Review'' None focusRecorder))
     = Some ''Review''"
  using task_field_link_or_name
          [where session = "asSessionLog exampleFocus 1766327100000 Finished"
             and path = "''Path/To/File.md''" and lm = idleRecorder and name = "[]"
             and m = Focus and d = 25 and tp = None and now = 1766325600000 and H = utcHost]
        task_field_link_or_name
          [where session = "asSessionLog exampleRest 1766327400000 Finished"
             and path = "[]" and lm = focusRecorder and name = "[]" and tp = None
             and H = utcHost]
        task_field_link_or_name
          [where session = "asSessionLog exampleRest 1766327400000 Finished"
             and path = "[]" and lm = focusRecorder and name = "''Review''" and tp = None
             and H = utcHost]
  by (simp add: asSessionLog_def exampleFocus_def exampleRest_def idleRecorder_def
        focusRecorder_def)

subsection \<open>Reset\<close>

lemma reset_src_main_files:
  "files (reset_src_main H nowResume nowEnd P) =
     (case finalRecord (logManager P) Cancelled nowResume nowEnd of
        None \<Rightarrow> files P
      | Some session \<Rightarrow> writeLog H (settings P) session (files P))"
  by (simp add: reset_src_main_def cancel_def Let_def switchMode_stopped endSessionOf_parts
        endSession_finalRecord split: option.split)

text \<open>
  C2, as amended. The two revisions of \<open>reset\<close> differ.
  \<^item> In the main.ts of src/unnamed/part_000, \<open>reset\<close> restores \<open>remainingMs\<close> (and
    \<open>totalMs\<close>) to the configured duration of the current mode and leaves recorder and
    log files as they are: the record in progress is not finalized, no log line is
    written, its \<open>startTime\<close> and pauses stay. Mode and running flag are kept; a running
    timer gets the target \<open>now + total\<close>, any other timer none.
  \<^item> In src/main.ts, \<open>reset\<close> is \<open>cancel\<close>: it ends the session. The record in
    progress is finalized with status \<open>cancelled\<close> and end time \<open>now\<close>, handed to
    \<open>writeLog\<close> (the files afterwards are what \<open>writeLog\<close> makes of it) and cleared, and the
    timer is put into the stopped state of the current mode, \<open>remainingMs\<close> at the
    configured duration.
\<close>

theorem reset_keeps_or_cancels_session:
  "logManager (reset now P) = logManager P
   \<and> files (reset now P) = files P
   \<and> settings (reset now P) = settings P
   \<and> remainingMs (state (timer (reset now P)))
       = minutesFor (settings P) (mode (state (timer P))) * 60000
   \<and> totalMs (state (timer (reset now P)))
       = minutesFor (settings P) (mode (state (timer P))) * 60000
   \<and> mode (state (timer (reset now P))) = mode (state (timer P))
   \<and> isRunning (state (timer (reset now P))) = isRunning (state (timer P))
   \<and> targetTime (timer (reset now P))
       = (if isRunning (state (timer P))
          then Some (now + minutesFor (settings P) (mode (state (timer P))) * 60000)
          else None)
   \<and> (logManager (reset_src_main H nowResume nowEnd P),
       files (reset_src_main H nowResume nowEnd P))
       = endSession H (settings P) Cancelled nowResume nowEnd (logManager P, files P)
   \<and> files (reset_src_main H nowResume nowEnd P)
       = (case finalRecord (logManager P) Cancelled nowResume nowEnd of
            None \<Rightarrow> files P
          | Some session \<Rightarrow> writeLog H (settings P) session (files P))
   \<and> (currentSession (logManager P) = Some s \<longrightarrow>
        (\<exists>session.
           finalRecord (logManager P) Cancelled nowResume nowEnd = Some session
           \<and> status session = Cancelled
           \<and> endTime session = nowEnd
           \<and> startTime session = startTime s
           \<and> PartialSessionLog.mode session = PartialSessionLog.mode s
           \<and> pauses session =
               (case currentPauseStart (logManager P) of
                  None \<Rightarrow> pauses s
                | Some pauseStart \<Rightarrow> pauses s @ [(pauseStart, nowResume)])))
   \<and> currentSession (logManager (reset_src_main H nowResume nowEnd P)) = None
   \<and> remainingMs (state (timer (reset_src_main H nowResume nowEnd P)))
       = minutesFor (settings P) (mode (state (timer P))) * 60000
   \<and> totalMs (state (timer (reset_src_main H nowResume nowEnd P)))
       = minutesFor (settings P) (mode (state (timer P))) * 60000
   \<and> mode (state (timer (reset_src_main H nowResume nowEnd P))) = mode (state (timer P))
   \<and> isRunning (state (timer (reset_src_main H nowResume nowEnd P))) = False
   \<and> targetTime (timer (reset_src_main H nowResume nowEnd P)) = None"
proof -
  have finalized: "\<exists>session.
           finalRecord (logManager P) Cancelled nowResume nowEnd = Some session
           \<and> status session = Cancelled
           \<and> endTime session = nowEnd
           \<and> startTime session = startTime s
           \<and> PartialSessionLog.mode session = PartialSessionLog.mode s
           \<and> pauses session =
               (case currentPauseStart (logManager P) of
                  None \<Rightarrow> pauses s
                | Some pauseStart \<Rightarrow> pauses s @ [(pauseStart, nowResume)])"
    if "currentSession (logManager P) = Some s"
    using that
    by (cases "currentPauseStart (logManager P)")
       (simp_all add: finalRecord_def asSessionLog_def)
  have rest: "logManager (reset now P) = logManager P
   \<and> files (reset now P) = files P
   \<and> settings (reset now P) = settings P
   \<and> remainingMs (state (timer (reset now P)))
       = minutesFor (settings P) (mode (state (timer P))) * 60000
   \<and> totalMs (state (timer (reset now P)))
       = minutesFor (settings P) (mode (state (timer P))) * 60000
   \<and> mode (state (timer (reset now P))) = mode (state (timer P))
   \<and> isRunning (state (timer (reset now P))) = isRunning (state (timer P))
   \<and> targetTime (timer (reset now P))
       = (if isRunning (state (timer P))
          then Some (now + minutesFor (settings P) (mode (state (timer P))) * 60000)
          else None)
   \<and> (logManager (reset_src_main H nowResume nowEnd P),
       files (reset_src_main H nowResume nowEnd P))
       = endSession H (settings P) Cancelled nowResume nowEnd (logManager P, files P)
   \<and> currentSession (logManager (reset_src_main H nowResume nowEnd P)) = None
   \<and> remainingMs (state (timer (reset_src_main H nowResume nowEnd P)))
       = minutesFor (settings P) (mode (state (timer P))) * 60000
   \<and> totalMs (state (timer (reset_src_main H nowResume nowEnd P)))
       = minutesFor (settings P) (mode (state (timer P))) * 60000
   \<and> mode (state (timer (reset_src_main H nowResume nowEnd P))) = mode (state (timer P))
   \<and> isRunning (state (timer (reset_src_main H nowResume nowEnd P))) = False
   \<and> targetTime (timer (reset_src_main H nowResume nowEnd P)) = None"
    by (simp add: reset_def reset_src_main_def cancel_def Let_def emit_def clearLoop_def
          switchMode_stopped endSessionOf_parts endSession_clears)
  from rest finalized reset_src_main_files [of H nowResume nowEnd P] show ?thesis
    by blast
qed

theorem reset_keeps_or_cancels_session_witness:
  "logManager (reset 1766327100000 runningPlugin) = focusRecorder
   \<and> files (reset 1766327100000 runningPlugin) = []
   \<and> remainingMs (state (timer (reset 1766327100000 runningPlugin))) = 1500000
   \<and> isRunning (state (timer (reset 1766327100000 runningPlugin)))
   \<and> targetTime (timer (reset 1766327100000 runningPlugin)) = Some 1766328600000
   \<and> remainingMs (state (timer
         (reset_src_main utcHost 1766327100000 1766327100000 runningPlugin))) = 1500000"
  using reset_keeps_or_cancels_session
          [where now = 1766327100000 and P = runningPlugin and H = utcHost
             and nowResume = 1766327100000 and nowEnd = 1766327100000]
  by (simp add: runningPlugin_def runningTimer_def exampleSettings_def DEFAULT_SETTINGS_def
        minutesFor_def)

text \<open>
  On a running focus session with logging on, \<open>reset\<close> of src/main.ts finalizes the
  record with status \<open>cancelled\<close>, writes its line and leaves the recorder empty.
\<close>

theorem reset_src_main_ends_session:
  "logManager (reset_src_main utcHost 1766327100000 1766327100000 runningPlugin)
     = idleRecorder
   \<and> files (reset_src_main utcHost 1766327100000 1766327100000 runningPlugin)
     = [(''Pomodoro_logs'', TFolder),
        (''Pomodoro_logs/2025-12-21-gentle-pomodoro-log.md'',
         TFile
           (''- '' @ tomato @ '' Focus | Task:: [[Path/To/File.md|Task Name #tag]]''
            @ '' | Start:: 2025-12-21 14:00:00 | End:: 2025-12-21 14:25:00''
            @ '' | Scheduled:: 1500 | Pauses:: ['' @ [CHR 0x22]
            @ ''2025-12-21 14:10:00 - 2025-12-21 14:12:00'' @ [CHR 0x22]
            @ ''] | Total:: 1380 | Status:: cancelled''))]"
  by (simp add: reset_src_main_def cancel_def endSessionOf_def switchMode_def emit_def
        clearLoop_def Let_def
        runningPlugin_def runningTimer_def focusRecorder_def idleRecorder_def
        endSession_def writeLog_def exampleSettings_def DEFAULT_SETTINGS_def minutesFor_def
        logFolder_def logFilePath_def utcHost_def ensureFolder_def adapter_exists_def
        createFolder_def vault_create_def getAbstractFileByPath_def asSessionLog_def
        exampleFocus_def logLine_def dateTimeFormat_def utcFormat_examples taskStr_def
        scheduledSeconds_def numberToString_examples totalSeconds_def totalPauseMs_def
        pauseStrings_def jsonStringify_example statusString_def)

end
